theory Spec2Isabelle
  imports Complex_Main "HOL-Library.AList"
begin

section \<open>Common values\<close>

text \<open>
  Python's \<open>float\<close> prices and amounts are modelled as \<open>real\<close>: the arithmetic of the
  functions below (differences, absolute values, a product with \<open>0.50\<close>, comparisons) is
  read over the reals, without rounding and without NaN or infinities. Python's unbounded
  \<open>int\<close> is \<open>int\<close>.

  A naive \<open>datetime\<close> (as \<open>datetime.now()\<close> returns) is the number of microseconds
  since the start of day 0 of the calendar; \<open>.date()\<close> is the day number and a
  \<open>timedelta\<close> is a number of microseconds.
\<close>

type_synonym datetime = int
type_synonym timedelta = int

definition microseconds_per_day :: int where
  "microseconds_per_day = 86400000000"

definition date :: "datetime \<Rightarrow> int" where
  "date t = t div microseconds_per_day"

definition timedelta_minutes :: "int \<Rightarrow> timedelta" where
  "timedelta_minutes m = m * 60000000"

section \<open>strategies/momentum\_30pt.py\<close>

record candle =
  c_open :: real
  c_high :: real
  c_low :: real
  c_close :: real
  c_volume :: int
  c_timestamp :: datetime

definition is_bullish :: "candle \<Rightarrow> bool" where
  "is_bullish c = (c_close c > c_open c)"

definition is_bearish :: "candle \<Rightarrow> bool" where
  "is_bearish c = (c_close c < c_open c)"

text \<open>The signal dict of \<open>on_candle_close\<close>, one field per key.\<close>

record signal =
  direction :: string
  entry_price :: real
  stop_price :: real
  breakout_candle :: candle
  prior_candle :: candle
  move_points :: real
  risk_points :: real
  timestamp :: datetime

record Momentum30pt =
  candles :: "candle list"
  trigger_threshold :: real
  current_signal :: "signal option"

definition Momentum30pt_init :: Momentum30pt where
  "Momentum30pt_init = \<lparr>candles = [], trigger_threshold = 30, current_signal = None\<rparr>"

text \<open>
  \<open>on_candle_close\<close> appends the candle, returns \<open>None\<close> while the history holds fewer
  than two candles, and otherwise compares the close with that of \<open>self.candles[-2]\<close>
  (which exists there, the list having at least two elements).
\<close>

definition on_candle_close :: "candle \<Rightarrow> Momentum30pt \<Rightarrow> signal option \<times> Momentum30pt" where
  "on_candle_close cndl self =
     (let self1 = self\<lparr>candles := candles self @ [cndl]\<rparr> in
      if length (candles self1) < 2 then (None, self1)
      else
        let breakout = cndl;
            prior = candles self1 ! (length (candles self1) - 2);
            move = c_close breakout - c_close prior
        in if \<bar>move\<bar> \<ge> trigger_threshold self1 then
             let dir = (if move > 0 then ''Buy'' else ''Sell'');
                 stop = (if dir = ''Buy'' then c_low breakout else c_high breakout);
                 sig = \<lparr>direction = dir,
                        entry_price = c_close breakout,
                        stop_price = stop,
                        breakout_candle = breakout,
                        prior_candle = prior,
                        move_points = \<bar>move\<bar>,
                        risk_points = \<bar>c_close breakout - stop\<bar>,
                        timestamp = c_timestamp breakout\<rparr>
             in (Some sig, self1\<lparr>current_signal := Some sig\<rparr>)
           else (None, self1))"

text \<open>The detector after a sequence of completed candles, fed in order to a new strategy.\<close>

fun feed :: "candle list \<Rightarrow> Momentum30pt \<Rightarrow> Momentum30pt" where
  "feed [] self = self"
| "feed (c # cs) self = feed cs (snd (on_candle_close c self))"

definition Momentum30pt_calculate_target :: "real \<Rightarrow> real \<Rightarrow> string \<Rightarrow> real" where
  "Momentum30pt_calculate_target entry stop dir =
     (let risk = \<bar>entry - stop\<bar> in
      if dir = ''Buy'' then entry + risk else entry - risk)"


text \<open>
  The formula of the specification for \<open>calculateTarget(entry, stop, direction,
  riskMultiple)\<close>, over a closed direction type.
\<close>

datatype side = Buy | Sell

fun side_str :: "side \<Rightarrow> string" where
  "side_str Buy = ''Buy''"
| "side_str Sell = ''Sell''"

definition calculateTarget_spec :: "real \<Rightarrow> real \<Rightarrow> side \<Rightarrow> real \<Rightarrow> real" where
  "calculateTarget_spec entry stop d riskMultiple =
     (case d of Buy \<Rightarrow> entry + riskMultiple * \<bar>entry - stop\<bar>
              | Sell \<Rightarrow> entry - riskMultiple * \<bar>entry - stop\<bar>)"

text \<open>
  The signal the specification describes for a breakout candle \<open>cur\<close> after \<open>prior\<close>.
\<close>

definition breakout_signal_spec :: "candle \<Rightarrow> candle \<Rightarrow> signal" where
  "breakout_signal_spec prior cur =
     (let move = c_close cur - c_close prior;
          d = (if move > 0 then Buy else Sell);
          stop = (case d of Buy \<Rightarrow> c_low cur | Sell \<Rightarrow> c_high cur)
      in \<lparr>direction = side_str d,
          entry_price = c_close cur,
          stop_price = stop,
          breakout_candle = cur,
          prior_candle = prior,
          move_points = \<bar>move\<bar>,
          risk_points = \<bar>c_close cur - stop\<bar>,
          timestamp = c_timestamp cur\<rparr>)"

section \<open>Messages\<close>

text \<open>
  A message built by an f-string is kept as its parts: literal text and interpolated
  values. \<open>text_of\<close> is the text of a message whose interpolated values are integers;
  the text of an interpolated \<open>float\<close> depends on Python's shortest-repr formatting,
  which is not modelled, so a message with a float field has no text here.
\<close>

datatype fpart = Lit string | IntV int | FloatV real

type_synonym message = "fpart list"

definition digit_char :: "nat \<Rightarrow> char" where
  "digit_char n = ''0123456789'' ! (n mod 10)"

fun str_nat :: "nat \<Rightarrow> string" where
  "str_nat n = (if n < 10 then [digit_char n] else str_nat (n div 10) @ [digit_char n])"

declare str_nat.simps [simp del]

definition str_int :: "int \<Rightarrow> string" where
  "str_int i = (if i < 0 then CHR ''-'' # str_nat (nat (- i)) else str_nat (nat i))"

fun text_of :: "message \<Rightarrow> string option" where
  "text_of [] = Some []"
| "text_of (Lit s # ps) = map_option (\<lambda>r. s @ r) (text_of ps)"
| "text_of (IntV i # ps) = map_option (\<lambda>r. str_int i @ r) (text_of ps)"
| "text_of (FloatV x # ps) = None"

section \<open>core/risk\_manager.py\<close>

datatype error =
    AttributeError string
  | RuntimeError string
  | TypeError
  | ValueError
  | ZeroDivisionError

record RiskConfig =
  max_daily_loss :: real
  max_position_size :: int
  max_trades_per_day :: int
  position_size_pct :: real
  account_balance :: real
  r_per_trade :: real

definition RiskConfig_default :: RiskConfig where
  "RiskConfig_default =
     \<lparr>max_daily_loss = - 500, max_position_size = 2, max_trades_per_day = 10,
      position_size_pct = 2 / 100, account_balance = 10000, r_per_trade = 100\<rparr>"

text \<open>Python's \<open>int(x)\<close> on a float truncates towards zero.\<close>

definition py_int_of_float :: "real \<Rightarrow> int" where
  "py_int_of_float x = (if x \<ge> 0 then \<lfloor>x\<rfloor> else \<lceil>x\<rceil>)"

definition position_size :: "RiskConfig \<Rightarrow> error + int" where
  "position_size cfg =
     (if r_per_trade cfg = 0 then Inl ZeroDivisionError
      else let sz = py_int_of_float ((account_balance cfg * position_size_pct cfg) / r_per_trade cfg)
           in Inr (min sz (max_position_size cfg)))"

record RiskManager =
  config :: RiskConfig
  daily_pnl :: real
  trades_today :: int
  daily_start :: datetime
  kill_switch_triggered :: bool

definition RiskManager_init :: "RiskConfig \<Rightarrow> datetime \<Rightarrow> RiskManager" where
  "RiskManager_init cfg now =
     \<lparr>config = cfg, daily_pnl = 0, trades_today = 0, daily_start = now,
      kill_switch_triggered = False\<rparr>"

definition check_entry ::
  "string \<Rightarrow> int \<Rightarrow> real \<Rightarrow> real \<Rightarrow> RiskManager \<Rightarrow> (bool \<times> message) \<times> RiskManager" where
  "check_entry dir sz entry_p stop_p self =
     (if kill_switch_triggered self then
        ((False, [Lit ''KILL_SWITCH active'']), self)
      else if daily_pnl self \<le> max_daily_loss (config self) then
        ((False, [Lit ''DAILY_LOSS hit ('', FloatV (daily_pnl self), Lit '')'']),
         self\<lparr>kill_switch_triggered := True\<rparr>)
      else if trades_today self \<ge> max_trades_per_day (config self) then
        ((False, [Lit ''MAX_TRADES reached'']), self)
      else if sz > max_position_size (config self) then
        ((False, [Lit ''MAX_SIZE exceeded ('', IntV sz, Lit '' > '',
                  IntV (max_position_size (config self)), Lit '')'']), self)
      else
        let risk = \<bar>entry_p - stop_p\<bar>;
            reward_per_contract = risk * (50 / 100)
        in if reward_per_contract < r_per_trade (config self) then
             ((False, [Lit ''Poor R:R ('', FloatV risk, Lit '' pts = $'',
                       FloatV reward_per_contract, Lit '')'']), self)
           else ((True, [Lit ''OK'']), self))"

definition update_pnl :: "real \<Rightarrow> RiskManager \<Rightarrow> RiskManager" where
  "update_pnl realized_pnl self =
     (let self1 = self\<lparr>daily_pnl := daily_pnl self + realized_pnl\<rparr> in
      if daily_pnl self1 \<le> max_daily_loss (config self1)
      then self1\<lparr>kill_switch_triggered := True\<rparr>
      else self1)"

definition record_trade :: "RiskManager \<Rightarrow> RiskManager" where
  "record_trade self = self\<lparr>trades_today := trades_today self + 1\<rparr>"

text \<open>
  \<open>reset_day\<close> reads the clock twice: \<open>now1\<close> in the test, \<open>now2\<close> for the new
  day boundary.
\<close>

definition reset_day :: "datetime \<Rightarrow> datetime \<Rightarrow> RiskManager \<Rightarrow> RiskManager" where
  "reset_day now1 now2 self =
     (if date now1 > date (daily_start self) then
        self\<lparr>daily_pnl := 0, trades_today := 0, daily_start := now2,
             kill_switch_triggered := False\<rparr>
      else self)"

definition get_position_size :: "RiskManager \<Rightarrow> error + int" where
  "get_position_size self = position_size (config self)"

text \<open>
  \<open>c and x or y\<close> on a condition and two floats: \<open>x\<close> when the condition holds and
  \<open>x\<close> is truthy (nonzero), \<open>y\<close> otherwise. \<open>if atr:\<close> holds for a float that is
  neither \<open>None\<close> nor zero.
\<close>

definition and_or :: "bool \<Rightarrow> real \<Rightarrow> real \<Rightarrow> real" where
  "and_or c x y = (if c \<and> x \<noteq> 0 then x else y)"

definition truthy_float :: "real option \<Rightarrow> bool" where
  "truthy_float v = (case v of None \<Rightarrow> False | Some x \<Rightarrow> x \<noteq> 0)"

definition calculate_stop :: "real \<Rightarrow> string \<Rightarrow> real option \<Rightarrow> real" where
  "calculate_stop entry dir atr =
     (let default_stop = 30 in
      if truthy_float atr then
        entry - and_or (dir = ''Buy'') (the atr * 2) (- the atr * 2)
      else if dir = ''Buy'' then entry - default_stop
      else entry + default_stop)"

definition RiskManager_calculate_target :: "real \<Rightarrow> string \<Rightarrow> real \<Rightarrow> real option \<Rightarrow> real" where
  "RiskManager_calculate_target entry dir stop risk_arg =
     (let risk = (case risk_arg of None \<Rightarrow> \<bar>entry - stop\<bar> | Some r \<Rightarrow> r);
          target_risk = risk * 2
      in if dir = ''Buy'' then entry + target_risk else entry - target_risk)"

text \<open>The calls a client may make on a risk manager, and a sequence of them.\<close>

datatype risk_call =
    CheckEntry string int real real
  | UpdatePnl real
  | RecordTrade
  | ResetDay datetime datetime

fun risk_step :: "risk_call \<Rightarrow> RiskManager \<Rightarrow> RiskManager" where
  "risk_step (CheckEntry dir sz e s) self = snd (check_entry dir sz e s self)"
| "risk_step (UpdatePnl x) self = update_pnl x self"
| "risk_step RecordTrade self = record_trade self"
| "risk_step (ResetDay now1 now2) self = reset_day now1 now2 self"

fun risk_run :: "risk_call list \<Rightarrow> RiskManager \<Rightarrow> RiskManager" where
  "risk_run [] self = self"
| "risk_run (c # cs) self = risk_run cs (risk_step c self)"

fun day_advance :: "RiskManager \<Rightarrow> risk_call \<Rightarrow> bool" where
  "day_advance self (ResetDay now1 now2) = (date now1 > date (daily_start self))"
| "day_advance self _ = False"


section \<open>JSON values and HTTP outcomes\<close>

text \<open>
  The values read from and written to JSON objects. A JSON object (a Python \<open>dict\<close>)
  is an association list; \<open>dict_get d k\<close> is \<open>d.get(k)\<close>, which is \<open>None\<close>
  (\<open>JNull\<close>) for a missing key. \<open>truthy\<close> is Python's truth value and \<open>py_or\<close>
  its \<open>or\<close>.
\<close>

datatype jv = JNull | JBool bool | JInt int | JFloat real | JStr string

type_synonym dict = "(string \<times> jv) list"

definition dict_get :: "dict \<Rightarrow> string \<Rightarrow> jv" where
  "dict_get d k = (case map_of d k of None \<Rightarrow> JNull | Some v \<Rightarrow> v)"

definition dict_set :: "string \<Rightarrow> jv \<Rightarrow> dict \<Rightarrow> dict" where
  "dict_set k v d = AList.update k v d"

definition has_key :: "dict \<Rightarrow> string \<Rightarrow> bool" where
  "has_key d k = (map_of d k \<noteq> None)"

fun truthy :: "jv \<Rightarrow> bool" where
  "truthy JNull = False"
| "truthy (JBool b) = b"
| "truthy (JInt i) = (i \<noteq> 0)"
| "truthy (JFloat x) = (x \<noteq> 0)"
| "truthy (JStr s) = (s \<noteq> [])"

definition py_or :: "jv \<Rightarrow> jv \<Rightarrow> jv" where
  "py_or a b = (if truthy a then a else b)"

text \<open>
  What an \<open>aiohttp\<close> request gives the caller: \<open>Raised\<close> when the request raises an
  exception, otherwise a response with its status and what \<open>resp.json()\<close> returns.
  The body is \<open>None\<close> when reading it raises; where the caller calls \<open>.get\<close> on the
  body inside the same \<open>try\<close>, a body that is not a JSON object raises there and is
  \<open>None\<close> as well.
\<close>

datatype 'a http = Raised | Response nat "'a option"

text \<open>
  \<open>int(s)\<close> on a string of ASCII characters: surrounding whitespace is stripped, one
  sign is allowed, the digits may be separated by single underscores. Characters beyond
  ASCII are not modelled.
\<close>

definition is_space :: "char \<Rightarrow> bool" where
  "is_space c = (let n = (of_char c :: nat) in (9 \<le> n \<and> n \<le> 13) \<or> (28 \<le> n \<and> n \<le> 32))"

definition is_digit :: "char \<Rightarrow> bool" where
  "is_digit c = (let n = (of_char c :: nat) in 48 \<le> n \<and> n \<le> 57)"

definition digit_val :: "char \<Rightarrow> nat" where
  "digit_val c = of_char c - 48"

fun digits_ok :: "string \<Rightarrow> bool" where
  "digits_ok [] = False"
| "digits_ok [c] = is_digit c"
| "digits_ok (c # d # cs) =
     (is_digit c \<and> (if d = CHR ''_'' then digits_ok cs else digits_ok (d # cs)))"

definition strip :: "string \<Rightarrow> string" where
  "strip s = rev (dropWhile is_space (rev (dropWhile is_space s)))"

definition int_of_str :: "string \<Rightarrow> int option" where
  "int_of_str s =
     (let t = strip s;
          neg = (t \<noteq> [] \<and> hd t = CHR ''-'');
          ds = (if t \<noteq> [] \<and> (hd t = CHR ''-'' \<or> hd t = CHR ''+'') then tl t else t);
          n = foldl (\<lambda>a c. 10 * a + digit_val c) 0 (filter is_digit ds)
      in if digits_ok ds then Some (if neg then - int n else int n) else None)"

fun py_int :: "jv \<Rightarrow> error + int" where
  "py_int JNull = Inl TypeError"
| "py_int (JBool b) = Inr (if b then 1 else 0)"
| "py_int (JInt i) = Inr i"
| "py_int (JFloat x) = Inr (py_int_of_float x)"
| "py_int (JStr s) = (case int_of_str s of None \<Rightarrow> Inl ValueError | Some i \<Rightarrow> Inr i)"

section \<open>utils/auth\_manager.py\<close>

record TradovateAuth =
  username :: string
  password :: string
  api_secret :: string
  account_id_from_env :: jv
  access_token :: jv
  md_access_token :: jv
  user_id :: jv
  account_id :: jv
  token_created :: "datetime option"
  renew_threshold :: timedelta
  base_url :: string

text \<open>
  The constructor reads the environment: the three credentials must be set and
  non-empty, the account id and the mode are optional.
\<close>

definition getenv_jv :: "string option \<Rightarrow> jv" where
  "getenv_jv v = (case v of None \<Rightarrow> JNull | Some s \<Rightarrow> JStr s)"

definition TradovateAuth_init ::
  "string option \<Rightarrow> string option \<Rightarrow> string option \<Rightarrow> string option \<Rightarrow> string option
     \<Rightarrow> error + TradovateAuth" where
  "TradovateAuth_init env_username env_password env_secret env_account env_mode =
     (if \<not> (truthy (getenv_jv env_username) \<and> truthy (getenv_jv env_password)
             \<and> truthy (getenv_jv env_secret))
      then Inl ValueError
      else Inr \<lparr>username = the env_username, password = the env_password,
                api_secret = the env_secret,
                account_id_from_env = getenv_jv env_account,
                access_token = JNull, md_access_token = JNull, user_id = JNull,
                account_id = JNull, token_created = None,
                renew_threshold = timedelta_minutes 75,
                base_url = ''https://'' @ (case env_mode of None \<Rightarrow> ''demo'' | Some m \<Rightarrow> m)
                             @ ''.tradovateapi.com/v1''\<rparr>)"

text \<open>
  \<open>authenticate\<close> posts the credentials; \<open>resp\<close> is what the request gives and
  \<open>now\<close> the clock when the token is stored. Every exception is caught and gives
  \<open>False\<close>.
\<close>

definition authenticate :: "dict http \<Rightarrow> datetime \<Rightarrow> TradovateAuth \<Rightarrow> bool \<times> TradovateAuth" where
  "authenticate resp now self =
     (case resp of
        Raised \<Rightarrow> (False, self)
      | Response status body \<Rightarrow>
          if status \<noteq> 200 then (False, self)
          else (case body of
                  None \<Rightarrow> (False, self)
                | Some data \<Rightarrow>
                    (True, self\<lparr>access_token := dict_get data ''accessToken'',
                                md_access_token := dict_get data ''mdAccessToken'',
                                user_id := dict_get data ''userId'',
                                account_id := py_or (dict_get data ''accountId'')
                                                    (account_id_from_env self),
                                token_created := Some now\<rparr>)))"

text \<open>
  \<open>renew_token\<close>: \<open>renew_resp\<close> is what the renewal request gives, \<open>auth_resp\<close>
  what the authentication request gives if the function falls back to it.
\<close>

definition renew_token ::
  "dict http \<Rightarrow> dict http \<Rightarrow> datetime \<Rightarrow> TradovateAuth \<Rightarrow> bool \<times> TradovateAuth" where
  "renew_token renew_resp auth_resp now self =
     (if \<not> truthy (access_token self) then authenticate auth_resp now self
      else
        (case renew_resp of
           Raised \<Rightarrow> authenticate auth_resp now self
         | Response status body \<Rightarrow>
             if status = 200 then
               (case body of
                  None \<Rightarrow> authenticate auth_resp now self
                | Some data \<Rightarrow>
                    (True, self\<lparr>access_token := dict_get data ''accessToken'',
                                token_created := Some now\<rparr>))
             else authenticate auth_resp now self))"

text \<open>
  One iteration of the endless loop of \<open>auto_renew\<close>, after its sleep: the clock read
  for the token age, and what a renewal attempted in this iteration would meet. The
  result says whether a renewal was attempted, and with what outcome.
\<close>

record tick =
  tick_now :: datetime
  tick_renew_resp :: "dict http"
  tick_auth_resp :: "dict http"
  tick_stored :: datetime

definition auto_renew_step :: "tick \<Rightarrow> TradovateAuth \<Rightarrow> bool option \<times> TradovateAuth" where
  "auto_renew_step t self =
     (case token_created self of
        None \<Rightarrow> (None, self)
      | Some created \<Rightarrow>
          let elapsed = tick_now t - created in
          if elapsed \<ge> renew_threshold self then
            (let (ok, self1) = renew_token (tick_renew_resp t) (tick_auth_resp t) (tick_stored t) self
             in (Some ok, self1))
          else (None, self))"

text \<open>The first iterations of the loop, one per tick.\<close>

fun auto_renew :: "tick list \<Rightarrow> TradovateAuth \<Rightarrow> bool option list \<times> TradovateAuth" where
  "auto_renew [] self = ([], self)"
| "auto_renew (t # ts) self =
     (let (r, self1) = auto_renew_step t self;
          (rs, self2) = auto_renew ts self1
      in (r # rs, self2))"

record headers =
  Authorization_Bearer :: jv
  Content_Type :: string

definition get_auth_headers :: "TradovateAuth \<Rightarrow> error + headers" where
  "get_auth_headers self =
     (if \<not> truthy (access_token self) then Inl (RuntimeError ''Not authenticated'')
      else Inr \<lparr>Authorization_Bearer = access_token self,
                Content_Type = ''application/json''\<rparr>)"

definition is_authenticated :: "TradovateAuth \<Rightarrow> bool" where
  "is_authenticated self = (access_token self \<noteq> JNull)"

text \<open>
  The specification's condition for a failed renewal: no access token, a request that
  raises, or a response that is not a success (a status other than 200, or a body that
  cannot be read).
\<close>

definition renewal_fails :: "TradovateAuth \<Rightarrow> dict http \<Rightarrow> bool" where
  "renewal_fails self renew_resp =
     (\<not> truthy (access_token self) \<or>
      (case renew_resp of
         Raised \<Rightarrow> True
       | Response status body \<Rightarrow> status \<noteq> 200 \<or> body = None))"


section \<open>core/order\_manager.py\<close>

datatype OrderAction = BUY | SELL

datatype OrderType = MARKET | LIMIT | STOP | STOP_LIMIT

datatype TimeInForce = DAY | GTC | IOC | FOK

text \<open>
  Calling an \<open>Enum\<close> class on a value looks the member up; a value of no member raises
  \<open>ValueError\<close>, here \<open>None\<close>.
\<close>

definition OrderAction_of :: "string \<Rightarrow> OrderAction option" where
  "OrderAction_of v =
     (if v = ''Buy'' then Some BUY else if v = ''Sell'' then Some SELL else None)"

definition OrderType_of :: "string \<Rightarrow> OrderType option" where
  "OrderType_of v =
     (if v = ''Market'' then Some MARKET else if v = ''Limit'' then Some LIMIT
      else if v = ''Stop'' then Some STOP else if v = ''StopLimit'' then Some STOP_LIMIT
      else None)"

definition TimeInForce_of :: "string \<Rightarrow> TimeInForce option" where
  "TimeInForce_of v =
     (if v = ''Day'' then Some DAY else if v = ''GTC'' then Some GTC
      else if v = ''IOC'' then Some IOC else if v = ''FOK'' then Some FOK else None)"

record Order =
  order_id :: jv
  o_symbol :: string
  o_action :: OrderAction
  o_qty :: int
  o_order_type :: OrderType
  o_price :: "real option"
  o_stop_price :: "real option"
  o_time_in_force :: TimeInForce
  o_status :: string
  o_filled_qty :: int
  o_avg_price :: real
  o_is_automated :: bool

record OrderManager =
  om_base_url :: string
  pending_orders :: "jv \<rightharpoonup> Order"
  executions :: "dict list"

definition OrderManager_init :: "TradovateAuth \<Rightarrow> OrderManager" where
  "OrderManager_init auth_manager =
     \<lparr>om_base_url = base_url auth_manager, pending_orders = Map.empty, executions = []\<rparr>"

text \<open>
  The requests a call issues to the broker, in order. The order manager keeps a
  reference to the session object, which other tasks update: its functions take the
  session's current value as \<open>au\<close>.
\<close>

datatype request = Post string headers dict | Get string headers

text \<open>The request body of \<open>place_order\<close>, as built before the request is sent.\<close>

definition place_order_body ::
  "string \<Rightarrow> int \<Rightarrow> string \<Rightarrow> string \<Rightarrow> int \<Rightarrow> string \<Rightarrow> real option \<Rightarrow> real option
     \<Rightarrow> string \<Rightarrow> dict" where
  "place_order_body account_spec account symb action qty order_type price stop_p tif =
     (let body0 = [(''accountSpec'', JStr account_spec),
                   (''accountId'', JInt account),
                   (''action'', JStr action),
                   (''symbol'', JStr symb),
                   (''orderQty'', JInt qty),
                   (''orderType'', JStr order_type),
                   (''isAutomated'', JBool True),
                   (''timeInForce'', JStr tif)];
          body1 = (if truthy_float price \<and> order_type \<in> set [''Limit'', ''StopLimit'']
                   then dict_set ''price'' (JFloat (the price)) body0 else body0);
          body2 = (if truthy_float stop_p \<and> order_type \<in> set [''Stop'', ''StopLimit'']
                   then dict_set ''stopPrice'' (JFloat (the stop_p)) body1 else body1)
      in body2)"

definition place_order ::
  "TradovateAuth \<Rightarrow> string \<Rightarrow> string \<Rightarrow> int \<Rightarrow> string \<Rightarrow> real option \<Rightarrow> real option \<Rightarrow> string
     \<Rightarrow> dict http \<Rightarrow> OrderManager \<Rightarrow> error + (dict option \<times> OrderManager \<times> request list)" where
  "place_order au symb action qty order_type price stop_p tif resp self =
     (case get_auth_headers au of
        Inl e \<Rightarrow> Inl e
      | Inr hdrs \<Rightarrow>
          (case py_int (account_id au) of
             Inl e \<Rightarrow> Inl e
           | Inr account \<Rightarrow>
               let body = place_order_body (username au) account symb action qty order_type
                            price stop_p tif;
                   req = Post (om_base_url self @ ''/order/placeorder'') hdrs body
               in (case resp of
                     Raised \<Rightarrow> Inr (None, self, [req])
                   | Response status None \<Rightarrow> Inr (None, self, [req])
                   | Response status (Some data) \<Rightarrow>
                       if status = 200 then
                         (let oid = dict_get data ''orderId'' in
                          case (OrderAction_of action, OrderType_of order_type,
                                TimeInForce_of tif) of
                            (Some a, Some t, Some f) \<Rightarrow>
                              let order = \<lparr>order_id = oid, o_symbol = symb, o_action = a,
                                           o_qty = qty, o_order_type = t, o_price = price,
                                           o_stop_price = stop_p, o_time_in_force = f,
                                           o_status = ''Working'', o_filled_qty = 0,
                                           o_avg_price = 0, o_is_automated = True\<rparr>
                              in Inr (Some data,
                                      (if truthy oid
                                       then self\<lparr>pending_orders := (pending_orders self)(oid \<mapsto> order)\<rparr>
                                       else self),
                                      [req])
                          | _ \<Rightarrow> Inr (None, self, [req]))
                       else Inr (None, self, [req]))))"

definition cancel_order ::
  "TradovateAuth \<Rightarrow> jv \<Rightarrow> dict http \<Rightarrow> OrderManager \<Rightarrow> error + (bool \<times> OrderManager \<times> request list)" where
  "cancel_order au oid resp self =
     (case get_auth_headers au of
        Inl e \<Rightarrow> Inl e
      | Inr hdrs \<Rightarrow>
          let req = Post (om_base_url self @ ''/order/cancelorder'') hdrs [(''orderId'', oid)]
          in (case resp of
                Raised \<Rightarrow> Inr (False, self, [req])
              | Response status body \<Rightarrow>
                  if status = 200 then
                    (case pending_orders self oid of
                       Some order \<Rightarrow>
                         Inr (True,
                              self\<lparr>pending_orders :=
                                     (pending_orders self)(oid \<mapsto> order\<lparr>o_status := ''Cancelled''\<rparr>)\<rparr>,
                              [req])
                     | None \<Rightarrow> Inr (True, self, [req]))
                  else Inr (False, self, [req])))"

text \<open>
  \<open>get_orders\<close> takes a status and does not use it: the list of the broker's answer is
  returned as it is. The body of a readable answer is taken to be a list of order
  objects, as the broker's order list is; other JSON values are not modelled.
\<close>

definition get_orders ::
  "TradovateAuth \<Rightarrow> string \<Rightarrow> dict list http \<Rightarrow> OrderManager \<Rightarrow> error + (dict list \<times> request list)" where
  "get_orders au status_arg resp self =
     (case get_auth_headers au of
        Inl e \<Rightarrow> Inl e
      | Inr hdrs \<Rightarrow>
          let req = Get (om_base_url self @ ''/order/list'') hdrs
          in (case resp of
                Raised \<Rightarrow> Inr ([], [req])
              | Response status body \<Rightarrow>
                  if status = 200 then
                    (case body of None \<Rightarrow> Inr ([], [req]) | Some data \<Rightarrow> Inr (data, [req]))
                  else Inr ([], [req])))"

text \<open>
  The loop of \<open>flatten_all\<close>: one \<open>cancel_order\<close> per element of the list, the
  \<open>k\<close>-th cancellation meeting the answer \<open>resps k\<close>.
\<close>

fun cancel_each ::
  "TradovateAuth \<Rightarrow> dict list \<Rightarrow> (nat \<Rightarrow> dict http) \<Rightarrow> nat \<Rightarrow> OrderManager
     \<Rightarrow> error + (OrderManager \<times> request list)" where
  "cancel_each au [] resps k self = Inr (self, [])"
| "cancel_each au (order # rest) resps k self =
     (case cancel_order au (dict_get order ''orderId'') (resps k) self of
        Inl e \<Rightarrow> Inl e
      | Inr (ok, self1, reqs) \<Rightarrow>
          (case cancel_each au rest resps (Suc k) self1 of
             Inl e \<Rightarrow> Inl e
           | Inr (self2, reqs2) \<Rightarrow> Inr (self2, reqs @ reqs2)))"

definition flatten_all ::
  "TradovateAuth \<Rightarrow> dict list http \<Rightarrow> (nat \<Rightarrow> dict http) \<Rightarrow> OrderManager
     \<Rightarrow> error + (bool \<times> OrderManager \<times> request list)" where
  "flatten_all au list_resp cancel_resps self =
     (case get_orders au ''Working'' list_resp self of
        Inl e \<Rightarrow> Inl e
      | Inr (orders, reqs) \<Rightarrow>
          (case cancel_each au orders cancel_resps 0 self of
             Inl e \<Rightarrow> Inl e
           | Inr (self1, reqs1) \<Rightarrow> Inr (True, self1, reqs @ reqs1)))"

text \<open>
  The order ids for which a request list holds a cancellation, and the orders of a
  broker's list by status (the broker's field \<open>ordStatus\<close>).
\<close>

fun cancelled_ids :: "request list \<Rightarrow> jv list" where
  "cancelled_ids [] = []"
| "cancelled_ids (Post url hdrs body # rs) =
     (if has_key body ''orderId'' then dict_get body ''orderId'' # cancelled_ids rs
      else cancelled_ids rs)"
| "cancelled_ids (Get url hdrs # rs) = cancelled_ids rs"

definition is_working :: "dict \<Rightarrow> bool" where
  "is_working order = (dict_get order ''ordStatus'' = JStr ''Working'')"


section \<open>core/market\_data.py\<close>

record Position =
  p_symbol :: string
  p_qty :: int
  p_avg_entry :: real
  p_unrealized_pnl :: real
  p_timestamp :: datetime

record MarketDataClient =
  md_connected :: bool
  positions :: "string \<rightharpoonup> Position"

definition get_position :: "MarketDataClient \<Rightarrow> string \<Rightarrow> Position option" where
  "get_position self symb = positions self symb"

section \<open>main.py\<close>

record MNQTradingBot =
  symbol :: string
  paper_mode :: bool
  auth :: "TradovateAuth option"
  orders :: "OrderManager option"
  market_data :: "MarketDataClient option"
  risk :: "RiskManager option"
  strategy :: "Momentum30pt option"
  running :: bool
  current_candle :: "candle option"
  last_signal :: "signal option"
  bot_trades_today :: int
  bot_daily_pnl :: real

definition MNQTradingBot_init :: "bool \<Rightarrow> string \<Rightarrow> MNQTradingBot" where
  "MNQTradingBot_init paper symb =
     \<lparr>symbol = symb, paper_mode = paper, auth = None, orders = None, market_data = None,
      risk = None, strategy = None, running = False, current_candle = None,
      last_signal = None, bot_trades_today = 0, bot_daily_pnl = 0\<rparr>"

text \<open>
  What a call does that is seen from outside: what it prints, logs and sends. The
  append to \<open>paper_trades.log\<close> is taken to succeed.
\<close>

record paper_trade_record =
  pt_time :: datetime
  pt_symbol :: string
  pt_direction :: string
  pt_entry :: real
  pt_stop :: real
  pt_target :: real
  pt_risk :: real
  pt_mode :: string

datatype event =
    Guardrail_skip int
  | Risk_block message
  | Executing string real real real
  | Paper_trade_logged paper_trade_record
  | Sent request

text \<open>
  The read of \<open>self.position\<close> in \<open>_execute_signal\<close>. The constructor binds
  \<open>symbol\<close>, \<open>paper_mode\<close>, \<open>auth\<close>, \<open>orders\<close>, \<open>market_data\<close>, \<open>risk\<close>,
  \<open>strategy\<close>, \<open>running\<close>, \<open>current_candle\<close>, \<open>last_signal\<close>, \<open>trades_today\<close>
  and \<open>daily_pnl\<close>; the class defines \<open>start\<close>, \<open>_on_quote\<close>, \<open>_candle_builder\<close>,
  \<open>_execute_signal\<close>, \<open>_paper_trade\<close>, \<open>_live_trade\<close> and \<open>stop\<close>, no property
  and no \<open>__getattr__\<close>, and no statement of the repository assigns a \<open>position\<close>
  attribute to the bot. The read therefore raises \<open>AttributeError\<close>, whatever the
  bot's state.
\<close>

definition self_position :: "MNQTradingBot \<Rightarrow> error + Position option" where
  "self_position self = Inl (AttributeError ''position'')"

definition paper_trade ::
  "signal \<Rightarrow> real \<Rightarrow> datetime \<Rightarrow> MNQTradingBot \<Rightarrow> error + (MNQTradingBot \<times> event list)" where
  "paper_trade sig target now self =
     (let trade = \<lparr>pt_time = now, pt_symbol = symbol self, pt_direction = direction sig,
                   pt_entry = entry_price sig, pt_stop = stop_price sig, pt_target = target,
                   pt_risk = risk_points sig, pt_mode = ''PAPER''\<rparr>
      in case risk self of
           None \<Rightarrow> Inl (AttributeError ''record_trade'')
         | Some rm \<Rightarrow>
             Inr (self\<lparr>risk := Some (record_trade rm),
                      bot_trades_today := bot_trades_today self + 1\<rparr>,
                  [Paper_trade_logged trade]))"

definition opposite_action :: "string \<Rightarrow> string" where
  "opposite_action dir = (if dir = ''Buy'' then ''Sell'' else ''Buy'')"

definition truthy_result :: "dict option \<Rightarrow> bool" where
  "truthy_result r = (case r of None \<Rightarrow> False | Some d \<Rightarrow> d \<noteq> [])"

definition live_trade ::
  "signal \<Rightarrow> real \<Rightarrow> dict http \<Rightarrow> dict http \<Rightarrow> dict http \<Rightarrow> MNQTradingBot
     \<Rightarrow> error + (MNQTradingBot \<times> event list)" where
  "live_trade sig target entry_resp stop_resp target_resp self =
     (let dir = direction sig in
      case orders self of
        None \<Rightarrow> Inl (AttributeError ''place_order'')
      | Some om \<Rightarrow>
      case auth self of
        None \<Rightarrow> Inl (AttributeError ''get_auth_headers'')
      | Some au \<Rightarrow>
      case place_order au (symbol self) dir 1 ''Market'' None None ''Day'' entry_resp om of
        Inl e \<Rightarrow> Inl e
      | Inr (result, om1, reqs1) \<Rightarrow>
          if truthy_result result then
            (case place_order au (symbol self) (opposite_action dir) 1 ''Stop'' None
                    (Some (stop_price sig)) ''Day'' stop_resp om1 of
               Inl e \<Rightarrow> Inl e
             | Inr (r2, om2, reqs2) \<Rightarrow>
            case place_order au (symbol self) (opposite_action dir) 1 ''Limit''
                    (Some target) None ''Day'' target_resp om2 of
               Inl e \<Rightarrow> Inl e
             | Inr (r3, om3, reqs3) \<Rightarrow>
            case risk self of
               None \<Rightarrow> Inl (AttributeError ''record_trade'')
             | Some rm \<Rightarrow>
                 Inr (self\<lparr>orders := Some om3, risk := Some (record_trade rm),
                          bot_trades_today := bot_trades_today self + 1\<rparr>,
                      map Sent (reqs1 @ reqs2 @ reqs3)))
          else Inr (self\<lparr>orders := Some om1\<rparr>, map Sent reqs1))"

text \<open>
  \<open>_execute_signal\<close>: \<open>now\<close> is the clock of a paper record, the three responses
  are what the entry, stop and target orders of a live trade would meet.
\<close>

definition execute_signal ::
  "signal \<Rightarrow> datetime \<Rightarrow> dict http \<Rightarrow> dict http \<Rightarrow> dict http \<Rightarrow> MNQTradingBot
     \<Rightarrow> error + (MNQTradingBot \<times> event list)" where
  "execute_signal sig now entry_resp stop_resp target_resp self =
     (let dir = direction sig; entry = entry_price sig; stop = stop_price sig in
      case strategy self of
        None \<Rightarrow> Inl (AttributeError ''calculate_target'')
      | Some strat \<Rightarrow>
      let target = Momentum30pt_calculate_target entry stop dir in
      case self_position self of
        Inl e \<Rightarrow> Inl e
      | Inr pos \<Rightarrow>
          if pos \<noteq> None \<and> p_qty (the pos) \<noteq> 0 then
            Inr (self, [Guardrail_skip (p_qty (the pos))])
          else
            (case risk self of
               None \<Rightarrow> Inl (AttributeError ''check_entry'')
             | Some rm \<Rightarrow>
                 let (res, rm1) = check_entry dir 1 entry stop rm;
                     self1 = self\<lparr>risk := Some rm1\<rparr>
                 in if \<not> fst res then Inr (self1, [Risk_block (snd res)])
                    else
                      (case (if paper_mode self1 then paper_trade sig target now self1
                             else live_trade sig target entry_resp stop_resp target_resp self1) of
                         Inl e \<Rightarrow> Inl e
                       | Inr (self2, evs) \<Rightarrow>
                           Inr (self2, Executing dir entry stop target # evs))))"

text \<open>
  The tracked position of the bot's instrument, as the market-data client holds it
  (\<open>get_position\<close>); \<open>None\<close> when there is no client or no position.
\<close>

definition tracked_position :: "MNQTradingBot \<Rightarrow> Position option" where
  "tracked_position self =
     (case market_data self of None \<Rightarrow> None | Some md \<Rightarrow> get_position md (symbol self))"


section \<open>Scenarios\<close>

text \<open>The inputs of the specification's scenarios, and of the examples below.\<close>

definition candle_A :: candle where
  "candle_A = \<lparr>c_open = 20500, c_high = 20520, c_low = 20490, c_close = 20510,
                c_volume = 1000, c_timestamp = 0\<rparr>"

definition candle_B :: candle where
  "candle_B = \<lparr>c_open = 20535, c_high = 20545, c_low = 20505, c_close = 20545,
                c_volume = 1100, c_timestamp = 300000000\<rparr>"

definition signal_B :: signal where
  "signal_B = \<lparr>direction = ''Buy'', entry_price = 20545, stop_price = 20505,
                breakout_candle = candle_B, prior_candle = candle_A,
                move_points = 35, risk_points = 40, timestamp = 300000000\<rparr>"

definition config_300 :: RiskConfig where
  "config_300 = RiskConfig_default\<lparr>max_daily_loss := - 300\<rparr>"

definition after_two_losses :: RiskManager where
  "after_two_losses = update_pnl (- 150) (update_pnl (- 150) (RiskManager_init config_300 0))"

definition session_0 :: TradovateAuth where
  "session_0 = \<lparr>username = ''trader'', password = ''pw'', api_secret = ''sec'',
                 account_id_from_env = JNull, access_token = JStr ''token-1'',
                 md_access_token = JStr ''md-1'', user_id = JInt 11, account_id = JInt 42,
                 token_created = Some 0, renew_threshold = timedelta_minutes 75,
                 base_url = ''https://demo.tradovateapi.com/v1''\<rparr>"

definition token_response :: "dict http" where
  "token_response = Response 200 (Some [(''accessToken'', JStr ''token-2''),
                                         (''mdAccessToken'', JStr ''md-2''),
                                         (''userId'', JInt 11), (''accountId'', JInt 42)])"

definition filled_order :: dict where
  "filled_order = [(''orderId'', JInt 7), (''ordStatus'', JStr ''Filled'')]"

definition working_order :: dict where
  "working_order = [(''orderId'', JInt 8), (''ordStatus'', JStr ''Working'')]"

definition flat_position :: Position where
  "flat_position = \<lparr>p_symbol = ''MNQH6'', p_qty = 0, p_avg_entry = 0, p_unrealized_pnl = 0,
                     p_timestamp = 0\<rparr>"

definition bot_0 :: MNQTradingBot where
  "bot_0 = (MNQTradingBot_init True ''MNQH6'')
             \<lparr>auth := Some session_0,
              orders := Some (OrderManager_init session_0),
              market_data := Some \<lparr>md_connected = True,
                                     positions = [''MNQH6'' \<mapsto> flat_position]\<rparr>,
              risk := Some (RiskManager_init
                              (RiskConfig_default\<lparr>max_daily_loss := - 500,
                                 account_balance := 5000, r_per_trade := 100\<rparr>) 0),
              strategy := Some (feed [candle_A, candle_B] Momentum30pt_init),
              running := True\<rparr>"


section \<open>The signal detector\<close>

lemma candles_on_candle_close:
  "candles (snd (on_candle_close c s)) = candles s @ [c]"
  by (simp add: on_candle_close_def Let_def)

lemma trigger_threshold_on_candle_close:
  "trigger_threshold (snd (on_candle_close c s)) = trigger_threshold s"
  by (simp add: on_candle_close_def Let_def)

lemma candles_feed: "candles (feed cs s) = candles s @ cs"
  by (induction cs arbitrary: s) (simp_all add: candles_on_candle_close)

lemma trigger_threshold_feed: "trigger_threshold (feed cs s) = trigger_threshold s"
  by (induction cs arbitrary: s) (simp_all add: trigger_threshold_on_candle_close)

text \<open>
  Claim C1. After any sequence \<open>cs\<close> of completed candles, the next candle \<open>cur\<close>
  gives no signal when \<open>cs\<close> is empty (the history then holds fewer than two candles);
  otherwise, with \<open>move = cur.close - previous.close\<close>, a signal is emitted exactly
  when \<open>|move| \<ge> 30\<close>, and it is the signal of the specification: direction Buy when
  the move is positive and Sell otherwise, entry at the close, stop at the low for Buy
  and at the high for Sell, risk \<open>|entry - stop|\<close>.
\<close>

theorem on_candle_close_signal:
  "fst (on_candle_close cur (feed cs Momentum30pt_init)) =
     (if cs = [] then None
      else if \<bar>c_close cur - c_close (last cs)\<bar> \<ge> 30
           then Some (breakout_signal_spec (last cs) cur)
           else None)"
proof (cases "cs = []")
  case True
  then show ?thesis
    by (simp add: on_candle_close_def Momentum30pt_init_def)
next
  case False
  have history: "candles (feed cs Momentum30pt_init) = cs"
    by (simp add: candles_feed Momentum30pt_init_def)
  have threshold: "trigger_threshold (feed cs Momentum30pt_init) = 30"
    by (simp add: trigger_threshold_feed Momentum30pt_init_def)
  from False have two: "\<not> length cs < Suc 0"
    by (cases cs) simp_all
  from False have prior: "(cs @ [cur]) ! (length cs - Suc 0) = last cs"
    by (simp add: nth_append last_conv_nth)
  show ?thesis
    using False two prior
    by (simp add: on_candle_close_def Let_def history threshold breakout_signal_spec_def)
qed

text \<open>
  The scenario of the specification: closes 20510 then 20545, breakout low 20505, give
  a Buy signal with entry 20545, stop 20505 and risk 40; the first candle gives nothing.
\<close>

theorem on_candle_close_signal_witness:
  "fst (on_candle_close candle_A (feed [] Momentum30pt_init)) = None
   \<and> fst (on_candle_close candle_B (feed [candle_A] Momentum30pt_init)) = Some signal_B"
  using on_candle_close_signal [of candle_A "[]"]
        on_candle_close_signal [of candle_B "[candle_A]"]
  by (simp add: breakout_signal_spec_def candle_A_def candle_B_def signal_B_def)

text \<open>
  Claim C6. The strategy's \<open>calculate_target\<close> is the specification's formula at the
  risk multiple 1, for both directions: \<open>entry + |entry - stop|\<close> for Buy and
  \<open>entry - |entry - stop|\<close> for Sell; for entry 20545 and stop 20505 the Buy target
  is 20585.
\<close>

theorem calculate_target_1R:
  "Momentum30pt_calculate_target entry stop (side_str d) = calculateTarget_spec entry stop d 1
   \<and> Momentum30pt_calculate_target 20545 20505 ''Buy'' = 20585"
  by (cases d) (simp_all add: Momentum30pt_calculate_target_def calculateTarget_spec_def)

theorem calculate_target_1R_witness:
  "Momentum30pt_calculate_target 20545 20585 ''Sell'' = 20505"
  using calculate_target_1R [of 20545 20585 Sell]
  by (simp add: calculateTarget_spec_def)

text \<open>
  The risk manager has a \<open>calculate_target\<close> of its own, which the bot does not call:
  it is the same formula at the multiple 2.
\<close>

lemma RiskManager_calculate_target_2R:
  "RiskManager_calculate_target entry (side_str d) stop None = calculateTarget_spec entry stop d 2"
  by (cases d) (simp_all add: RiskManager_calculate_target_def calculateTarget_spec_def)

section \<open>The risk gate\<close>

text \<open>
  The reason \<open>check_entry\<close> returns is a message, not a bare code: with the default
  limits, a new risk manager refuses size 3 with the text \<open>MAX_SIZE exceeded (3 > 2)\<close>.
\<close>

theorem check_entry_reason_counterexample:
  "text_of (snd (fst (check_entry ''Buy'' 3 20545 20505 (RiskManager_init RiskConfig_default 0))))
     = Some ''MAX_SIZE exceeded (3 > 2)''
   \<and> text_of (snd (fst (check_entry ''Buy'' 3 20545 20505 (RiskManager_init RiskConfig_default 0))))
     \<noteq> Some ''MAX_SIZE''"
  by (simp add: check_entry_def RiskManager_init_def RiskConfig_default_def str_int_def
      str_nat.simps digit_char_def)

text \<open>
  Claim C3, as amended. \<open>check_entry\<close> tests, in this order, the kill switch, the
  daily loss (\<open>daily_pnl \<le> max_daily_loss\<close>, which sets the kill switch), the number
  of trades (\<open>trades_today \<ge> max_trades_per_day\<close>), the size
  (\<open>size > max_position_size\<close>) and the reward per contract
  (\<open>|entry - stop| * 0.50 < r_per_trade\<close>), and returns \<open>False\<close> at the first test
  that fails, with the messages \<open>KILL_SWITCH active\<close>, \<open>DAILY_LOSS hit (pnl)\<close>,
  \<open>MAX_TRADES reached\<close>, \<open>MAX_SIZE exceeded (size > max)\<close> and
  \<open>Poor R:R (risk pts = $reward)\<close>; otherwise it returns \<open>(True, OK)\<close>. Only the
  daily-loss test changes the state. A new risk manager with \<open>max_position_size = 2\<close>,
  a negative loss limit and a positive trade limit refuses size 3 with
  \<open>MAX_SIZE exceeded (3 > 2)\<close>, for every direction, entry and stop.
\<close>

theorem check_entry_order:
  "(kill_switch_triggered self \<longrightarrow>
      check_entry dir sz e s self = ((False, [Lit ''KILL_SWITCH active'']), self))
   \<and> (\<not> kill_switch_triggered self \<and> daily_pnl self \<le> max_daily_loss (config self) \<longrightarrow>
      check_entry dir sz e s self =
        ((False, [Lit ''DAILY_LOSS hit ('', FloatV (daily_pnl self), Lit '')'']),
         self\<lparr>kill_switch_triggered := True\<rparr>))
   \<and> (\<not> kill_switch_triggered self \<and> \<not> daily_pnl self \<le> max_daily_loss (config self)
       \<and> trades_today self \<ge> max_trades_per_day (config self) \<longrightarrow>
      check_entry dir sz e s self = ((False, [Lit ''MAX_TRADES reached'']), self))
   \<and> (\<not> kill_switch_triggered self \<and> \<not> daily_pnl self \<le> max_daily_loss (config self)
       \<and> \<not> trades_today self \<ge> max_trades_per_day (config self)
       \<and> sz > max_position_size (config self) \<longrightarrow>
      check_entry dir sz e s self =
        ((False, [Lit ''MAX_SIZE exceeded ('', IntV sz, Lit '' > '',
                  IntV (max_position_size (config self)), Lit '')'']), self))
   \<and> (\<not> kill_switch_triggered self \<and> \<not> daily_pnl self \<le> max_daily_loss (config self)
       \<and> \<not> trades_today self \<ge> max_trades_per_day (config self)
       \<and> \<not> sz > max_position_size (config self)
       \<and> \<bar>e - s\<bar> * (50 / 100) < r_per_trade (config self) \<longrightarrow>
      check_entry dir sz e s self =
        ((False, [Lit ''Poor R:R ('', FloatV \<bar>e - s\<bar>, Lit '' pts = $'',
                  FloatV (\<bar>e - s\<bar> * (50 / 100)), Lit '')'']), self))
   \<and> (\<not> kill_switch_triggered self \<and> \<not> daily_pnl self \<le> max_daily_loss (config self)
       \<and> \<not> trades_today self \<ge> max_trades_per_day (config self)
       \<and> \<not> sz > max_position_size (config self)
       \<and> \<not> \<bar>e - s\<bar> * (50 / 100) < r_per_trade (config self) \<longrightarrow>
      check_entry dir sz e s self = ((True, [Lit ''OK'']), self))
   \<and> (max_position_size cfg = 2 \<and> max_daily_loss cfg < 0 \<and> max_trades_per_day cfg > 0 \<longrightarrow>
      fst (check_entry dir 3 e s (RiskManager_init cfg now)) =
        (False, [Lit ''MAX_SIZE exceeded ('', IntV 3, Lit '' > '', IntV 2, Lit '')'']))"
  by (simp add: check_entry_def Let_def RiskManager_init_def)

text \<open>One input for each of the six outcomes, and the scenario of size 3.\<close>

theorem check_entry_order_witness:
  "fst (check_entry ''Buy'' 1 20545 20345 after_two_losses) = (False, [Lit ''KILL_SWITCH active''])
   \<and> check_entry ''Buy'' 1 20545 20345 ((RiskManager_init RiskConfig_default 0)\<lparr>daily_pnl := - 600\<rparr>)
       = ((False, [Lit ''DAILY_LOSS hit ('', FloatV (- 600), Lit '')'']),
          (RiskManager_init RiskConfig_default 0)\<lparr>daily_pnl := - 600, kill_switch_triggered := True\<rparr>)
   \<and> fst (check_entry ''Buy'' 3 20545 20345 ((RiskManager_init RiskConfig_default 0)\<lparr>trades_today := 10\<rparr>))
       = (False, [Lit ''MAX_TRADES reached''])
   \<and> fst (check_entry ''Sell'' 3 20545 20345 (RiskManager_init RiskConfig_default 0))
       = (False, [Lit ''MAX_SIZE exceeded ('', IntV 3, Lit '' > '', IntV 2, Lit '')''])
   \<and> fst (check_entry ''Buy'' 1 20545 20505 (RiskManager_init RiskConfig_default 0))
       = (False, [Lit ''Poor R:R ('', FloatV 40, Lit '' pts = $'', FloatV 20, Lit '')''])
   \<and> check_entry ''Buy'' 1 20545 20345 (RiskManager_init RiskConfig_default 0)
       = ((True, [Lit ''OK'']), RiskManager_init RiskConfig_default 0)
   \<and> fst (check_entry ''Buy'' 3 1 2 (RiskManager_init RiskConfig_default 7))
       = (False, [Lit ''MAX_SIZE exceeded ('', IntV 3, Lit '' > '', IntV 2, Lit '')''])"
  using check_entry_order [of after_two_losses "''Buy''" 1 20545 20345]
        check_entry_order [of "(RiskManager_init RiskConfig_default 0)\<lparr>daily_pnl := - 600\<rparr>"
                              "''Buy''" 1 20545 20345]
        check_entry_order [of "(RiskManager_init RiskConfig_default 0)\<lparr>trades_today := 10\<rparr>"
                              "''Buy''" 3 20545 20345]
        check_entry_order [of "RiskManager_init RiskConfig_default 0" "''Sell''" 3 20545 20345]
        check_entry_order [of "RiskManager_init RiskConfig_default 0" "''Buy''" 1 20545 20505]
        check_entry_order [of "RiskManager_init RiskConfig_default 0" "''Buy''" 1 20545 20345]
        check_entry_order [of "RiskManager_init RiskConfig_default 0" "''Buy''" 3 1 2
                              RiskConfig_default 7]
  by (simp add: after_two_losses_def config_300_def update_pnl_def RiskManager_init_def
      RiskConfig_default_def)


text \<open>The kill switch under each call of the risk manager.\<close>

lemma kill_check_entry:
  "kill_switch_triggered self \<Longrightarrow> kill_switch_triggered (snd (check_entry d z e s self))"
  by (simp add: check_entry_def)

lemma kill_update_pnl:
  "kill_switch_triggered self \<Longrightarrow> kill_switch_triggered (update_pnl x self)"
  by (simp add: update_pnl_def Let_def)

lemma kill_record_trade:
  "kill_switch_triggered self \<Longrightarrow> kill_switch_triggered (record_trade self)"
  by (simp add: record_trade_def)

lemma kill_reset_day:
  "kill_switch_triggered self \<Longrightarrow>
     kill_switch_triggered (reset_day now1 now2 self) = (\<not> date now1 > date (daily_start self))"
  by (simp add: reset_day_def)

lemma daily_start_risk_step:
  "\<not> day_advance self c \<Longrightarrow> daily_start (risk_step c self) = daily_start self"
  by (cases c) (simp_all add: check_entry_def update_pnl_def record_trade_def reset_day_def Let_def)

lemma kill_risk_step:
  "\<not> day_advance self c \<Longrightarrow> kill_switch_triggered self \<Longrightarrow>
     kill_switch_triggered (risk_step c self)"
  by (cases c) (simp_all add: kill_check_entry kill_update_pnl kill_record_trade reset_day_def)

lemma day_advance_daily_start:
  "daily_start a = daily_start b \<Longrightarrow> day_advance a c = day_advance b c"
  by (cases c) simp_all

text \<open>
  A sequence of calls in which no \<open>reset_day\<close> sees a later date than the day boundary
  keeps the kill switch: induction on the sequence, the day boundary being unchanged by
  every step.
\<close>

lemma kill_risk_run:
  "\<forall>c \<in> set cs. \<not> day_advance self c \<Longrightarrow> kill_switch_triggered self \<Longrightarrow>
     kill_switch_triggered (risk_run cs self)"
proof (induction cs arbitrary: self)
  case Nil
  then show ?case by simp
next
  case (Cons c cs)
  have k: "kill_switch_triggered (risk_step c self)"
    using Cons.prems by (simp add: kill_risk_step)
  have d: "daily_start (risk_step c self) = daily_start self"
    using Cons.prems by (simp add: daily_start_risk_step)
  have "\<forall>c' \<in> set cs. \<not> day_advance (risk_step c self) c'"
    using Cons.prems(1) day_advance_daily_start [OF d] by simp
  then show ?case
    using Cons.IH k by simp
qed

lemma two_losses:
  "max_daily_loss cfg = - 300 \<Longrightarrow>
     \<not> kill_switch_triggered (update_pnl (- 150) (RiskManager_init cfg now))
     \<and> daily_pnl (update_pnl (- 150) (update_pnl (- 150) (RiskManager_init cfg now))) = - 300
     \<and> kill_switch_triggered (update_pnl (- 150) (update_pnl (- 150) (RiskManager_init cfg now)))"
  by (simp add: update_pnl_def RiskManager_init_def Let_def)

text \<open>
  With \<open>max_daily_loss = -300\<close> and two losses of 150, \<open>check_entry\<close> returns the
  message \<open>KILL_SWITCH active\<close>, not the bare code \<open>KILL_SWITCH\<close>.
\<close>

theorem kill_switch_reason_counterexample:
  "fst (check_entry ''Buy'' 1 20545 20345 after_two_losses) = (False, [Lit ''KILL_SWITCH active''])
   \<and> text_of (snd (fst (check_entry ''Buy'' 1 20545 20345 after_two_losses))) \<noteq> Some ''KILL_SWITCH''"
  by (simp add: check_entry_def after_two_losses_def config_300_def update_pnl_def
      RiskManager_init_def RiskConfig_default_def)

text \<open>
  Claim C4, as amended. In every state of the risk manager, a kill switch that is set
  stays set under \<open>check_entry\<close>, \<open>update_pnl\<close> and \<open>record_trade\<close>, and
  \<open>reset_day\<close> clears it exactly when the date it reads is later than the day
  boundary; \<open>check_entry\<close> never allows an entry while the kill switch is set or while
  \<open>daily_pnl \<le> max_daily_loss\<close>. With \<open>max_daily_loss = -300\<close>, a new risk manager
  is not stopped by the first \<open>update_pnl(-150)\<close>; the second brings \<open>daily_pnl\<close> to
  \<open>-300\<close> and sets the kill switch, and after any further calls without a day advance
  \<open>check_entry\<close> returns \<open>(False, KILL_SWITCH active)\<close>.
\<close>

theorem kill_switch_persists:
  "(kill_switch_triggered self \<longrightarrow>
      kill_switch_triggered (snd (check_entry dir sz e s self))
      \<and> kill_switch_triggered (update_pnl x self)
      \<and> kill_switch_triggered (record_trade self)
      \<and> (kill_switch_triggered (reset_day now1 now2 self)
           \<longleftrightarrow> \<not> date now1 > date (daily_start self)))
   \<and> (kill_switch_triggered self \<or> daily_pnl self \<le> max_daily_loss (config self) \<longrightarrow>
      \<not> fst (fst (check_entry dir sz e s self)))
   \<and> (max_daily_loss cfg = - 300 \<longrightarrow>
      \<not> kill_switch_triggered (update_pnl (- 150) (RiskManager_init cfg now))
      \<and> daily_pnl (update_pnl (- 150) (update_pnl (- 150) (RiskManager_init cfg now))) = - 300
      \<and> kill_switch_triggered (update_pnl (- 150) (update_pnl (- 150) (RiskManager_init cfg now)))
      \<and> ((\<forall>c \<in> set calls.
             \<not> day_advance (update_pnl (- 150) (update_pnl (- 150) (RiskManager_init cfg now))) c) \<longrightarrow>
          fst (check_entry dir sz e s
                 (risk_run calls (update_pnl (- 150) (update_pnl (- 150) (RiskManager_init cfg now)))))
            = (False, [Lit ''KILL_SWITCH active''])))"
proof (intro conjI impI)
  assume "kill_switch_triggered self"
  then show "kill_switch_triggered (snd (check_entry dir sz e s self))"
    and "kill_switch_triggered (update_pnl x self)"
    and "kill_switch_triggered (record_trade self)"
    and "kill_switch_triggered (reset_day now1 now2 self)
           \<longleftrightarrow> \<not> date now1 > date (daily_start self)"
    by (simp_all add: kill_check_entry kill_update_pnl kill_record_trade kill_reset_day)
next
  assume "kill_switch_triggered self \<or> daily_pnl self \<le> max_daily_loss (config self)"
  then show "\<not> fst (fst (check_entry dir sz e s self))"
    by (auto simp add: check_entry_def)
next
  assume cfg: "max_daily_loss cfg = - 300"
  then show "\<not> kill_switch_triggered (update_pnl (- 150) (RiskManager_init cfg now))"
    and "daily_pnl (update_pnl (- 150) (update_pnl (- 150) (RiskManager_init cfg now))) = - 300"
    and "kill_switch_triggered (update_pnl (- 150) (update_pnl (- 150) (RiskManager_init cfg now)))"
    by (simp_all add: two_losses)
  assume "\<forall>c \<in> set calls.
     \<not> day_advance (update_pnl (- 150) (update_pnl (- 150) (RiskManager_init cfg now))) c"
  then have "kill_switch_triggered
     (risk_run calls (update_pnl (- 150) (update_pnl (- 150) (RiskManager_init cfg now))))"
    using cfg by (simp add: kill_risk_run two_losses)
  then show "fst (check_entry dir sz e s
      (risk_run calls (update_pnl (- 150) (update_pnl (- 150) (RiskManager_init cfg now)))))
        = (False, [Lit ''KILL_SWITCH active''])"
    by (simp add: check_entry_def)
qed

text \<open>
  The scenario: after the two losses, a gain, a trade, an entry check and a
  \<open>reset_day\<close> on the same day leave the kill switch set.
\<close>

theorem kill_switch_persists_witness:
  "kill_switch_triggered (snd (check_entry ''Buy'' 1 20545 20345 after_two_losses))
   \<and> kill_switch_triggered (update_pnl 1000 after_two_losses)
   \<and> kill_switch_triggered (record_trade after_two_losses)
   \<and> kill_switch_triggered (reset_day 5 6 after_two_losses)
   \<and> \<not> fst (fst (check_entry ''Buy'' 1 20545 20345 after_two_losses))
   \<and> daily_pnl after_two_losses = - 300
   \<and> fst (check_entry ''Buy'' 1 20545 20345
            (risk_run [UpdatePnl 1000, RecordTrade, CheckEntry ''Sell'' 1 20545 20745, ResetDay 5 6]
               after_two_losses))
       = (False, [Lit ''KILL_SWITCH active''])"
  using kill_switch_persists [where self = after_two_losses and dir = "''Buy''" and sz = 1
          and e = 20545 and s = 20345 and x = 1000 and ?now1.0 = 5 and ?now2.0 = 6
          and cfg = config_300 and now = 0
          and calls = "[UpdatePnl 1000, RecordTrade, CheckEntry ''Sell'' 1 20545 20745, ResetDay 5 6]"]
  by (simp add: after_two_losses_def config_300_def RiskConfig_default_def
      RiskManager_init_def update_pnl_def date_def microseconds_per_day_def)

text \<open>
  Claim C7. \<open>reset_day\<close> clears \<open>daily_pnl\<close>, \<open>trades_today\<close> and the kill switch,
  and moves the day boundary, when the date it reads is later than the day boundary;
  otherwise it changes nothing. A second call within the same calendar day as the first
  changes nothing: the reset happens once per day transition.
\<close>

theorem reset_day_once_per_day:
  "(date now1 > date (daily_start self) \<longrightarrow>
      daily_pnl (reset_day now1 now2 self) = 0
      \<and> trades_today (reset_day now1 now2 self) = 0
      \<and> \<not> kill_switch_triggered (reset_day now1 now2 self)
      \<and> daily_start (reset_day now1 now2 self) = now2)
   \<and> (\<not> date now1 > date (daily_start self) \<longrightarrow> reset_day now1 now2 self = self)
   \<and> (date now1 = date now2 \<and> date now3 = date now2 \<longrightarrow>
      reset_day now3 now4 (reset_day now1 now2 self) = reset_day now1 now2 self)"
  by (simp add: reset_day_def)

text \<open>
  A stopped risk manager whose day began on day 0: a call on day 1 resets it, a second
  call on day 1 and a call on day 0 change nothing.
\<close>

theorem reset_day_once_per_day_witness:
  "daily_pnl (reset_day 86400000005 86400000006 after_two_losses) = 0
   \<and> trades_today (reset_day 86400000005 86400000006 after_two_losses) = 0
   \<and> \<not> kill_switch_triggered (reset_day 86400000005 86400000006 after_two_losses)
   \<and> daily_start (reset_day 86400000005 86400000006 after_two_losses) = 86400000006
   \<and> reset_day 5 6 after_two_losses = after_two_losses
   \<and> reset_day 86400000009 86400000010 (reset_day 86400000005 86400000006 after_two_losses)
       = reset_day 86400000005 86400000006 after_two_losses"
  using reset_day_once_per_day [where self = after_two_losses and ?now1.0 = 86400000005
          and ?now2.0 = 86400000006 and ?now3.0 = 86400000009 and ?now4.0 = 86400000010]
        reset_day_once_per_day [where self = after_two_losses and ?now1.0 = 5 and ?now2.0 = 6
          and ?now3.0 = 7 and ?now4.0 = 8]
  by (simp add: after_two_losses_def config_300_def RiskConfig_default_def
      RiskManager_init_def update_pnl_def date_def microseconds_per_day_def)

text \<open>
  For a Sell at 20500 with an ATR of 10, the ATR stop is 20520: above the entry, on the
  same side as the fixed stop 20530, not on the opposite side.
\<close>

theorem calculate_stop_sell_counterexample:
  "20500 < calculate_stop 20500 ''Sell'' (Some 10)
   \<and> 20500 < calculate_stop 20500 ''Sell'' None
   \<and> \<not> calculate_stop 20500 ''Sell'' (Some 10) < 20500"
  by (simp add: calculate_stop_def and_or_def truthy_float_def)

text \<open>
  Claim C9, as amended. For every entry and every \<open>atr > 0\<close>, the ATR stop of a Sell is
  \<open>entry + 2 * atr\<close>, above the entry like the fixed stop \<open>entry + 30\<close>; the ATR stop
  of a Buy is \<open>entry - 2 * atr\<close>, below the entry like the fixed stop \<open>entry - 30\<close>.
  The two branches agree in side for both directions.
\<close>

theorem calculate_stop_sides:
  "0 < atr \<Longrightarrow>
     calculate_stop entry ''Sell'' (Some atr) = entry + 2 * atr
     \<and> entry < calculate_stop entry ''Sell'' (Some atr)
     \<and> calculate_stop entry ''Sell'' None = entry + 30
     \<and> entry < calculate_stop entry ''Sell'' None
     \<and> calculate_stop entry ''Buy'' (Some atr) = entry - 2 * atr
     \<and> calculate_stop entry ''Buy'' (Some atr) < entry
     \<and> calculate_stop entry ''Buy'' None = entry - 30
     \<and> calculate_stop entry ''Buy'' None < entry"
  by (simp add: calculate_stop_def and_or_def truthy_float_def)

theorem calculate_stop_sides_witness:
  "calculate_stop 20500 ''Sell'' (Some 10) = 20520
   \<and> calculate_stop 20500 ''Sell'' None = 20530
   \<and> calculate_stop 20500 ''Buy'' (Some 10) = 20480
   \<and> calculate_stop 20500 ''Buy'' None = 20470"
  using calculate_stop_sides [of 10 20500]
  by simp


section \<open>The session\<close>

text \<open>No function of the session changes the renewal threshold the constructor sets.\<close>

lemma renew_threshold_init:
  "TradovateAuth_init u p k a m = Inr self \<Longrightarrow> renew_threshold self = timedelta_minutes 75"
  by (auto simp add: TradovateAuth_init_def split: if_splits)

lemma renew_threshold_authenticate:
  "renew_threshold (snd (authenticate resp now self)) = renew_threshold self"
  by (simp add: authenticate_def split: http.splits option.splits)

lemma renew_threshold_renew_token:
  "renew_threshold (snd (renew_token rr ar now self)) = renew_threshold self"
  by (simp add: renew_token_def renew_threshold_authenticate split: http.splits option.splits)

text \<open>
  Claim C8. When the renewal fails (there is no access token, the renewal request
  raises, or its response is not a readable success), \<open>renew_token\<close> is a full
  \<open>authenticate\<close>: same result, same session. An iteration of \<open>auto_renew\<close> attempts
  a renewal exactly when a token has been stored and its age has reached 75 minutes; it
  then does what \<open>renew_token\<close> does, and otherwise leaves the session as it is.
\<close>

theorem renew_token_fallback:
  "(renewal_fails self renew_resp \<longrightarrow>
      renew_token renew_resp auth_resp now self = authenticate auth_resp now self)
   \<and> (renew_threshold self = timedelta_minutes 75 \<longrightarrow>
        (fst (auto_renew_step t self) \<noteq> None
           \<longleftrightarrow> (case token_created self of
                  None \<Rightarrow> False
                | Some created \<Rightarrow> tick_now t - created \<ge> timedelta_minutes 75))
        \<and> (fst (auto_renew_step t self) \<noteq> None \<longrightarrow>
             auto_renew_step t self =
               (Some (fst (renew_token (tick_renew_resp t) (tick_auth_resp t) (tick_stored t) self)),
                snd (renew_token (tick_renew_resp t) (tick_auth_resp t) (tick_stored t) self)))
        \<and> (fst (auto_renew_step t self) = None \<longrightarrow> snd (auto_renew_step t self) = self))"
proof (intro conjI impI)
  assume "renewal_fails self renew_resp"
  then show "renew_token renew_resp auth_resp now self = authenticate auth_resp now self"
    by (auto simp add: renewal_fails_def renew_token_def split: http.splits option.splits)
next
  assume "renew_threshold self = timedelta_minutes 75"
  then show "fst (auto_renew_step t self) \<noteq> None
           \<longleftrightarrow> (case token_created self of
                  None \<Rightarrow> False
                | Some created \<Rightarrow> tick_now t - created \<ge> timedelta_minutes 75)"
    by (simp add: auto_renew_step_def Let_def split: option.splits prod.splits)
next
  assume "fst (auto_renew_step t self) \<noteq> None"
  then show "auto_renew_step t self =
               (Some (fst (renew_token (tick_renew_resp t) (tick_auth_resp t) (tick_stored t) self)),
                snd (renew_token (tick_renew_resp t) (tick_auth_resp t) (tick_stored t) self))"
    by (simp add: auto_renew_step_def Let_def split: option.splits prod.splits if_splits)
next
  assume "fst (auto_renew_step t self) = None"
  then show "snd (auto_renew_step t self) = self"
    by (simp add: auto_renew_step_def Let_def split: option.splits prod.splits if_splits)
qed

text \<open>
  A refused renewal (status 401), a renewal that raises and a session without a token
  each re-authenticate; a token of 75 minutes less a microsecond is not renewed, a token
  of 75 minutes is.
\<close>

theorem renew_token_fallback_witness:
  "renew_token (Response 401 None) token_response 99 session_0
     = authenticate token_response 99 session_0
   \<and> renew_token Raised token_response 99 session_0 = authenticate token_response 99 session_0
   \<and> renew_token (Response 200 (Some [(''accessToken'', JStr ''token-3'')])) token_response 99
        (session_0\<lparr>access_token := JNull\<rparr>)
       = authenticate token_response 99 (session_0\<lparr>access_token := JNull\<rparr>)
   \<and> fst (auto_renew_step \<lparr>tick_now = 4499999999, tick_renew_resp = Response 401 None,
              tick_auth_resp = token_response, tick_stored = 4500000001\<rparr> session_0) = None
   \<and> auto_renew_step \<lparr>tick_now = 4500000000, tick_renew_resp = Response 401 None,
              tick_auth_resp = token_response, tick_stored = 4500000001\<rparr> session_0
       = (Some True, snd (authenticate token_response 4500000001 session_0))"
  using renew_token_fallback [where self = session_0 and renew_resp = "Response 401 None"
          and auth_resp = token_response and now = 99
          and t = "\<lparr>tick_now = 4499999999, tick_renew_resp = Response 401 None,
                    tick_auth_resp = token_response, tick_stored = 4500000001\<rparr>"]
        renew_token_fallback [where self = session_0 and renew_resp = Raised
          and auth_resp = token_response and now = 99
          and t = "\<lparr>tick_now = 4500000000, tick_renew_resp = Response 401 None,
                    tick_auth_resp = token_response, tick_stored = 4500000001\<rparr>"]
        renew_token_fallback [where self = "session_0\<lparr>access_token := JNull\<rparr>"
          and renew_resp = "Response 200 (Some [(''accessToken'', JStr ''token-3'')])"
          and auth_resp = token_response and now = 99]
        renew_token_fallback [where self = session_0 and renew_resp = "Response 401 None"
          and auth_resp = token_response and now = 4500000001]
  by (simp add: renewal_fails_def session_0_def timedelta_minutes_def token_response_def
      authenticate_def)

section \<open>The order manager\<close>

lemma has_key_Nil: "has_key [] k' \<longleftrightarrow> False"
  by (simp add: has_key_def)

lemma has_key_Cons: "has_key ((k, v) # d) k' \<longleftrightarrow> k' = k \<or> has_key d k'"
  by (simp add: has_key_def)

lemma has_key_dict_set: "has_key (dict_set k v d) k' \<longleftrightarrow> k' = k \<or> has_key d k'"
  by (auto simp add: has_key_def dict_set_def update_conv')

lemma truthy_float_iff: "truthy_float v \<longleftrightarrow> (\<exists>p. v = Some p \<and> p \<noteq> 0)"
  by (cases v) (simp_all add: truthy_float_def)

text \<open>A call of \<open>place_order\<close> that returns has sent one request, with the body built.\<close>

lemma place_order_sends_body:
  "place_order au symb action qty order_type price stop_p tif resp self = Inr (res, self', reqs)
   \<Longrightarrow> \<exists>hdrs account. get_auth_headers au = Inr hdrs \<and> py_int (account_id au) = Inr account
         \<and> reqs = [Post (om_base_url self @ ''/order/placeorder'') hdrs
                     (place_order_body (username au) account symb action qty order_type
                        price stop_p tif)]"
  by (auto simp add: place_order_def Let_def split: sum.splits http.splits option.splits if_splits)

text \<open>
  Claim C10. The request body of \<open>place_order\<close> has a \<open>price\<close> field exactly when the
  price is given and nonzero and the order type is \<open>Limit\<close> or \<open>StopLimit\<close>, and a
  \<open>stopPrice\<close> field exactly when the stop price is given and nonzero and the order
  type is \<open>Stop\<close> or \<open>StopLimit\<close>; every call that returns has sent this body, with
  the session's headers and account id.
\<close>

theorem place_order_body_price_fields:
  "(has_key (place_order_body spec account symb action qty order_type price stop_p tif) ''price''
      \<longleftrightarrow> (\<exists>p. price = Some p \<and> p \<noteq> 0) \<and> (order_type = ''Limit'' \<or> order_type = ''StopLimit''))
   \<and> (has_key (place_order_body spec account symb action qty order_type price stop_p tif) ''stopPrice''
      \<longleftrightarrow> (\<exists>p. stop_p = Some p \<and> p \<noteq> 0) \<and> (order_type = ''Stop'' \<or> order_type = ''StopLimit''))
   \<and> (place_order au symb action qty order_type price stop_p tif resp self = Inr (res, self', reqs)
      \<longrightarrow> (\<exists>hdrs acct. get_auth_headers au = Inr hdrs \<and> py_int (account_id au) = Inr acct
             \<and> reqs = [Post (om_base_url self @ ''/order/placeorder'') hdrs
                         (place_order_body (username au) acct symb action qty order_type
                            price stop_p tif)]))"
proof (intro conjI impI)
  show "has_key (place_order_body spec account symb action qty order_type price stop_p tif) ''price''
      \<longleftrightarrow> (\<exists>p. price = Some p \<and> p \<noteq> 0) \<and> (order_type = ''Limit'' \<or> order_type = ''StopLimit'')"
    by (auto simp add: place_order_body_def Let_def has_key_dict_set has_key_Cons has_key_Nil
        truthy_float_iff)
next
  show "has_key (place_order_body spec account symb action qty order_type price stop_p tif) ''stopPrice''
      \<longleftrightarrow> (\<exists>p. stop_p = Some p \<and> p \<noteq> 0) \<and> (order_type = ''Stop'' \<or> order_type = ''StopLimit'')"
    by (auto simp add: place_order_body_def Let_def has_key_dict_set has_key_Cons has_key_Nil
        truthy_float_iff)
next
  assume "place_order au symb action qty order_type price stop_p tif resp self = Inr (res, self', reqs)"
  from place_order_sends_body [OF this]
  show "\<exists>hdrs acct. get_auth_headers au = Inr hdrs \<and> py_int (account_id au) = Inr acct
          \<and> reqs = [Post (om_base_url self @ ''/order/placeorder'') hdrs
                      (place_order_body (username au) acct symb action qty order_type
                         price stop_p tif)]"
    by blast
qed

text \<open>
  A Limit order with price 0 and a Stop order with stop price 0 are sent without the
  field, the price of a Market order is dropped, and nonzero prices of Limit and Stop
  orders are sent.
\<close>

theorem place_order_body_price_fields_witness:
  "\<not> has_key (place_order_body ''trader'' 42 ''MNQH6'' ''Sell'' 1 ''Limit'' (Some 0) None ''Day'') ''price''
   \<and> \<not> has_key (place_order_body ''trader'' 42 ''MNQH6'' ''Sell'' 1 ''Stop'' None (Some 0) ''Day'') ''stopPrice''
   \<and> \<not> has_key (place_order_body ''trader'' 42 ''MNQH6'' ''Buy'' 1 ''Market'' (Some 20545) None ''Day'') ''price''
   \<and> has_key (place_order_body ''trader'' 42 ''MNQH6'' ''Sell'' 1 ''Limit'' (Some 20585) None ''Day'') ''price''
   \<and> has_key (place_order_body ''trader'' 42 ''MNQH6'' ''Sell'' 1 ''Stop'' None (Some 20505) ''Day'') ''stopPrice''
   \<and> place_order session_0 ''MNQH6'' ''Buy'' 1 ''Market'' (Some 20545) None ''Day'' Raised
        (OrderManager_init session_0)
       = Inr (None, OrderManager_init session_0,
              [Post ''https://demo.tradovateapi.com/v1/order/placeorder''
                 \<lparr>Authorization_Bearer = JStr ''token-1'', Content_Type = ''application/json''\<rparr>
                 (place_order_body ''trader'' 42 ''MNQH6'' ''Buy'' 1 ''Market'' (Some 20545) None ''Day'')])"
proof -
  have sent: "place_order session_0 ''MNQH6'' ''Buy'' 1 ''Market'' (Some 20545) None ''Day'' Raised
                (OrderManager_init session_0)
              = Inr (None, OrderManager_init session_0,
                 [Post ''https://demo.tradovateapi.com/v1/order/placeorder''
                    \<lparr>Authorization_Bearer = JStr ''token-1'', Content_Type = ''application/json''\<rparr>
                    (place_order_body ''trader'' 42 ''MNQH6'' ''Buy'' 1 ''Market'' (Some 20545) None ''Day'')])"
    by (simp add: place_order_def session_0_def get_auth_headers_def OrderManager_init_def)
  show ?thesis
    using place_order_body_price_fields [where spec = "''trader''" and account = 42
            and symb = "''MNQH6''" and action = "''Sell''" and qty = 1 and order_type = "''Limit''"
            and price = "Some 0" and stop_p = None and tif = "''Day''"]
          place_order_body_price_fields [where spec = "''trader''" and account = 42
            and symb = "''MNQH6''" and action = "''Sell''" and qty = 1 and order_type = "''Stop''"
            and price = None and stop_p = "Some 0" and tif = "''Day''"]
          place_order_body_price_fields [where spec = "''trader''" and account = 42
            and symb = "''MNQH6''" and action = "''Buy''" and qty = 1 and order_type = "''Market''"
            and price = "Some 20545" and stop_p = None and tif = "''Day''"
            and au = session_0 and resp = Raised and self = "OrderManager_init session_0"
            and res = None and self' = "OrderManager_init session_0"
            and reqs = "[Post ''https://demo.tradovateapi.com/v1/order/placeorder''
                    \<lparr>Authorization_Bearer = JStr ''token-1'', Content_Type = ''application/json''\<rparr>
                    (place_order_body ''trader'' 42 ''MNQH6'' ''Buy'' 1 ''Market'' (Some 20545) None ''Day'')]"]
          place_order_body_price_fields [where spec = "''trader''" and account = 42
            and symb = "''MNQH6''" and action = "''Sell''" and qty = 1 and order_type = "''Limit''"
            and price = "Some 20585" and stop_p = None and tif = "''Day''"]
          place_order_body_price_fields [where spec = "''trader''" and account = 42
            and symb = "''MNQH6''" and action = "''Sell''" and qty = 1 and order_type = "''Stop''"
            and price = None and stop_p = "Some 20505" and tif = "''Day''"]
          sent
    by simp
qed

text \<open>
  \<open>flatten_all\<close> with an authenticated session and a list from the broker: every
  element of the list gets a cancellation request, in order, whatever its status.
\<close>

lemma cancel_order_request:
  "get_auth_headers au = Inr hdrs \<Longrightarrow>
     \<exists>ok self'. cancel_order au oid resp self
        = Inr (ok, self', [Post (om_base_url self @ ''/order/cancelorder'') hdrs [(''orderId'', oid)]])
      \<and> om_base_url self' = om_base_url self"
  by (auto simp add: cancel_order_def Let_def split: http.splits option.splits)

lemma cancel_each_requests:
  "get_auth_headers au = Inr hdrs \<Longrightarrow>
     \<exists>self'. cancel_each au olist resps k self
        = Inr (self', map (\<lambda>order. Post (om_base_url self @ ''/order/cancelorder'') hdrs
                                    [(''orderId'', dict_get order ''orderId'')]) olist)
      \<and> om_base_url self' = om_base_url self"
proof (induction olist arbitrary: k self)
  case Nil
  then show ?case by simp
next
  case (Cons order rest)
  from cancel_order_request [OF Cons.prems, of "dict_get order ''orderId''" "resps k" self]
  obtain ok self1 where
    first: "cancel_order au (dict_get order ''orderId'') (resps k) self
          = Inr (ok, self1, [Post (om_base_url self @ ''/order/cancelorder'') hdrs
                               [(''orderId'', dict_get order ''orderId'')]])"
    and url1: "om_base_url self1 = om_base_url self"
    by blast
  from Cons.IH [OF Cons.prems, of "Suc k" self1]
  obtain self2 where
    others: "cancel_each au rest resps (Suc k) self1
          = Inr (self2, map (\<lambda>order. Post (om_base_url self1 @ ''/order/cancelorder'') hdrs
                                       [(''orderId'', dict_get order ''orderId'')]) rest)"
    and url2: "om_base_url self2 = om_base_url self1"
    by blast
  show ?case
    using first others url1 url2 by simp
qed

lemma cancelled_ids_map:
  "cancelled_ids (map (\<lambda>order. Post url hdrs [(''orderId'', dict_get order ''orderId'')]) olist)
     = map (\<lambda>order. dict_get order ''orderId'') olist"
  by (induction olist) (simp_all add: has_key_def dict_get_def)

lemma flatten_all_cancels_every_order:
  assumes "truthy (access_token au)"
  shows "\<exists>self' reqs. flatten_all au (Response 200 (Some olist)) resps self = Inr (True, self', reqs)
           \<and> cancelled_ids reqs = map (\<lambda>order. dict_get order ''orderId'') olist"
proof -
  from assms obtain hdrs where h: "get_auth_headers au = Inr hdrs"
    by (simp add: get_auth_headers_def)
  from cancel_each_requests [OF h, of olist resps 0 self]
  obtain self' where
    c: "cancel_each au olist resps 0 self
          = Inr (self', map (\<lambda>order. Post (om_base_url self @ ''/order/cancelorder'') hdrs
                                      [(''orderId'', dict_get order ''orderId'')]) olist)"
    by blast
  show ?thesis
    using h c by (simp add: flatten_all_def get_orders_def Let_def cancelled_ids_map)
qed

text \<open>
  Claim C5 fails on the code: a broker's list with a Filled order 7 and a Working order
  8 gets a cancellation request for both.
\<close>

theorem flatten_all_cancels_filled_order:
  "\<not> is_working filled_order
   \<and> (case flatten_all session_0 (Response 200 (Some [filled_order, working_order]))
             (\<lambda>k. Response 200 None) (OrderManager_init session_0) of
        Inl err \<Rightarrow> []
      | Inr (ok, self', reqs) \<Rightarrow> cancelled_ids reqs) = [JInt 7, JInt 8]"
proof -
  have "truthy (access_token session_0)"
    by (simp add: session_0_def)
  from flatten_all_cancels_every_order [OF this, of "[filled_order, working_order]"
         "\<lambda>k. Response 200 None" "OrderManager_init session_0"]
  show ?thesis
    by (auto simp add: is_working_def filled_order_def working_order_def dict_get_def)
qed

section \<open>The coordinator\<close>

text \<open>\<open>_execute_signal\<close> never returns: it raises at the guard, or before it.\<close>

lemma execute_signal_raises:
  "\<exists>err. execute_signal sig now entry_resp stop_resp target_resp self = Inl err"
  by (simp add: execute_signal_def self_position_def Let_def split: option.splits)

text \<open>
  Claim C2 fails on the code: for a started bot whose tracked position has quantity 0,
  the signal of the scenario does not reach the risk check; the guard raises
  \<open>AttributeError\<close> on \<open>self.position\<close>.
\<close>

theorem execute_signal_flat_position:
  "map_option p_qty (tracked_position bot_0) = Some 0
   \<and> execute_signal signal_B 300000001 token_response token_response token_response bot_0
       = Inl (AttributeError ''position'')"
  by (simp add: execute_signal_def self_position_def Let_def bot_0_def MNQTradingBot_init_def
      tracked_position_def get_position_def flat_position_def)

end
